theory Spec2Isabelle
  imports Main
begin

section \<open>Python values\<close>

text \<open>
  The integration handles whatever \<open>json.loads\<close> returns. A decoded value is \<open>None\<close>,
  a \<open>bool\<close>, an \<open>int\<close>, a \<open>float\<close>, a \<open>str\<close>, a \<open>list\<close> or a \<open>dict\<close> with string keys.

  A finite binary float is \<open>m * 2 ^ e\<close> for integers \<open>m\<close> and \<open>e\<close>; the decoder also
  produces the three non-finite floats (from \<open>1e999\<close>, \<open>Infinity\<close>, \<open>NaN\<close>).

  A \<open>dict\<close> is the list of its items in insertion order. The keys of a Python dict are
  pairwise different; \<open>is_dict\<close> says so for a list of items.

  Strings are lists of 8-bit characters, so \<open>lower\<close> and \<open>strip\<close> are the ASCII ones.
\<close>

datatype pyfloat = Finite int int | PosInf | NegInf | NaN

datatype json =
    JNull
  | JBool bool
  | JInt int
  | JFloat pyfloat
  | JStr string
  | JList "json list"
  | JDict "(string \<times> json) list"

type_synonym pydict = "(string \<times> json) list"

definition is_dict :: "('k \<times> 'v) list \<Rightarrow> bool" where
  "is_dict d = distinct (map fst d)"

text \<open>\<open>d.get(k)\<close>, with \<open>None\<close> of the option type for a missing key.\<close>

definition dict_get :: "('k \<times> 'v) list \<Rightarrow> 'k \<Rightarrow> 'v option" where
  "dict_get d k = map_of d k"

text \<open>\<open>d[k] = v\<close>: an existing key keeps its place, a new key goes last.\<close>

fun dict_set :: "('k \<times> 'v) list \<Rightarrow> 'k \<Rightarrow> 'v \<Rightarrow> ('k \<times> 'v) list" where
  "dict_set [] k v = [(k, v)]"
| "dict_set ((k', v') # d) k v =
     (if k' = k then (k, v) # d else (k', v') # dict_set d k v)"

text \<open>\<open>d.update(other)\<close>: the items of \<open>other\<close> are stored one by one, in order.\<close>

definition dict_update :: "('k \<times> 'v) list \<Rightarrow> ('k \<times> 'v) list \<Rightarrow> ('k \<times> 'v) list" where
  "dict_update d other = fold (\<lambda>(k, v) acc. dict_set acc k v) other d"

subsection \<open>Exceptions\<close>

text \<open>
  \<open>MatomoAuthError\<close> is a subclass of \<open>MatomoAPIError\<close> (api.py, lines 13 to 18): an
  \<open>except MatomoAPIError\<close> clause catches both, which \<open>is_MatomoAPIError\<close> decides.
  \<open>UpdateFailed msg cause\<close> is the host's exception, raised \<open>from\<close> its cause. The
  remaining constructors are the exceptions of the interpreter and of the libraries that
  no clause of the integration catches.
\<close>

datatype exn =
    MatomoAPIError string
  | MatomoAuthError string
  | UpdateFailed string exn
  | AttributeError
  | TypeError
  | ValueError
  | OverflowError
  | Uncaught string

fun is_MatomoAPIError :: "exn \<Rightarrow> bool" where
  "is_MatomoAPIError (MatomoAPIError _) = True"
| "is_MatomoAPIError (MatomoAuthError _) = True"
| "is_MatomoAPIError _ = False"


subsection \<open>Strings\<close>

definition is_space :: "char \<Rightarrow> bool" where
  "is_space c = (let n = (of_char c :: nat) in (9 \<le> n \<and> n \<le> 13) \<or> (28 \<le> n \<and> n \<le> 32))"

definition strip :: "string \<Rightarrow> string" where
  "strip s = rev (dropWhile is_space (rev (dropWhile is_space s)))"

definition startswith :: "string \<Rightarrow> string \<Rightarrow> bool" where
  "startswith s p = (take (length p) s = p)"

definition lower_char :: "char \<Rightarrow> char" where
  "lower_char c =
     (case map_of (zip ''ABCDEFGHIJKLMNOPQRSTUVWXYZ'' ''abcdefghijklmnopqrstuvwxyz'') c of
        Some l \<Rightarrow> l
      | None \<Rightarrow> c)"

definition lower :: "string \<Rightarrow> string" where
  "lower s = map lower_char s"

text \<open>\<open>sub in s\<close> for two strings: \<open>sub\<close> starts at some position of \<open>s\<close>.\<close>

fun str_in :: "string \<Rightarrow> string \<Rightarrow> bool" where
  "str_in sub [] = (sub = [])"
| "str_in sub (c # s) = (startswith (c # s) sub \<or> str_in sub s)"

subsection \<open>The built-in \<open>int\<close>\<close>

definition is_digit :: "char \<Rightarrow> bool" where
  "is_digit c = (c \<in> set ''0123456789'')"

definition digit_val :: "char \<Rightarrow> int" where
  "digit_val c = int (of_char c) - 48"

text \<open>Decimal digits, with single underscores allowed between two digits.\<close>

fun parse_digits :: "int \<Rightarrow> string \<Rightarrow> int option" where
  "parse_digits acc [] = None"
| "parse_digits acc [c] = (if is_digit c then Some (acc * 10 + digit_val c) else None)"
| "parse_digits acc (c # d # ds) =
     (if \<not> is_digit c then None
      else if d = CHR ''_'' then parse_digits (acc * 10 + digit_val c) ds
      else parse_digits (acc * 10 + digit_val c) (d # ds))"

definition int_of_str :: "string \<Rightarrow> int option" where
  "int_of_str s =
     (case strip s of
        [] \<Rightarrow> None
      | c # cs \<Rightarrow>
          if c = CHR ''-'' then map_option uminus (parse_digits 0 cs)
          else if c = CHR ''+'' then parse_digits 0 cs
          else parse_digits 0 (c # cs))"

text \<open>\<open>int(x)\<close> of a finite float rounds towards zero.\<close>

definition float_trunc :: "int \<Rightarrow> int \<Rightarrow> int" where
  "float_trunc m e =
     (if 0 \<le> e then m * 2 ^ nat e
      else if 0 \<le> m then m div 2 ^ nat (- e)
      else - ((- m) div 2 ^ nat (- e)))"

fun py_int :: "json \<Rightarrow> exn + int" where
  "py_int (JInt i) = Inr i"
| "py_int (JBool b) = Inr (if b then 1 else 0)"
| "py_int (JFloat (Finite m e)) = Inr (float_trunc m e)"
| "py_int (JFloat NaN) = Inl ValueError"
| "py_int (JFloat PosInf) = Inl OverflowError"
| "py_int (JFloat NegInf) = Inl OverflowError"
| "py_int (JStr s) = (case int_of_str s of Some i \<Rightarrow> Inr i | None \<Rightarrow> Inl ValueError)"
| "py_int JNull = Inl TypeError"
| "py_int (JList _) = Inl TypeError"
| "py_int (JDict _) = Inl TypeError"

text \<open>\<open>isinstance(value, (int, float))\<close>; \<open>bool\<close> is a subclass of \<open>int\<close>.\<close>

fun is_int_or_float :: "json \<Rightarrow> bool" where
  "is_int_or_float (JInt _) = True"
| "is_int_or_float (JBool _) = True"
| "is_int_or_float (JFloat _) = True"
| "is_int_or_float _ = False"


section \<open>The Matomo API client (api.py)\<close>

subsection \<open>The HTTP session\<close>

text \<open>
  The session and the decoder belong to \<open>aiohttp\<close> and to the standard library. The
  client sees them through what they return or raise:
  \<^item> \<open>session.post\<close> returns a response or raises, and so does \<open>resp.text()\<close>;
    what is raised is an \<open>aiohttp.ClientError\<close> (with its \<open>str\<close>) or an exception of
    another class (with the name of the class);
  \<^item> \<open>resp.raise_for_status()\<close> raises a \<open>ClientResponseError\<close>, a subclass of
    \<open>ClientError\<close>, when the status is 400 or more; \<open>status_error\<close> is its \<open>str\<close>;
  \<^item> \<open>json.loads\<close> returns the decoded value, or raises \<open>JSONDecodeError\<close> (\<open>None\<close>).
  The 30 seconds of \<open>ClientTimeout\<close> are not modelled: a timeout is one of the exceptions
  that \<open>session.post\<close> raises.
\<close>

datatype param = PInt int | PStr string

record http_request =
  url :: string
  url_params :: "(string \<times> param) list"
  post_data :: "(string \<times> param) list"

datatype raised = ClientError string | NonClientError string

datatype 'a outcome = Raises raised | Returns 'a

record http_response =
  status :: int
  status_error :: string
  body :: "string outcome"

record MatomoAPI =
  session_post :: "http_request \<Rightarrow> http_response outcome"
  json_loads :: "string \<Rightarrow> json option"
  base_url :: string
  token_auth :: string

subsection \<open>\<open>_request\<close>\<close>

text \<open>
  The method \<open>_request\<close> is \<open>request\<close> here, as \<open>_async_update_data\<close>, \<open>_site_value\<close>,
  \<open>_live_value\<close> and \<open>_aggregate_value\<close> are written without their underscore below.

  The two \<open>except\<close> clauses of lines 90 to 93: a \<open>ClientError\<close> is wrapped in a
  \<open>MatomoAPIError\<close>, any other exception leaves \<open>_request\<close> as it is.
\<close>

fun on_raised :: "raised \<Rightarrow> exn" where
  "on_raised (ClientError s) = MatomoAPIError (''Error communicating with Matomo: '' @ s)"
| "on_raised (NonClientError n) = Uncaught n"

text \<open>Lines 48 to 58 and 63 to 67: what is posted.\<close>

definition post_request :: "MatomoAPI \<Rightarrow> string \<Rightarrow> (string \<times> param) list \<Rightarrow> http_request" where
  "post_request api method params =
     \<lparr>url = base_url api,
      url_params =
        [(''module'', PStr ''API''), (''method'', PStr method), (''format'', PStr ''JSON'')],
      post_data = dict_update [(''token_auth'', PStr (token_auth api))] params\<rparr>"

text \<open>The \<open>try\<close> block, lines 62 to 93: the value of \<open>data\<close>, or the exception.\<close>

definition request_data ::
  "MatomoAPI \<Rightarrow> string \<Rightarrow> (string \<times> param) list \<Rightarrow> exn + json" where
  "request_data api method params =
     (case session_post api (post_request api method params) of
        Raises r \<Rightarrow> Inl (on_raised r)
      | Returns resp \<Rightarrow>
          if status resp = 401
          then Inl (MatomoAuthError ''Invalid authentication token (HTTP 401)'')
          else
            (case body resp of
               Raises r \<Rightarrow> Inl (on_raised r)
             | Returns text \<Rightarrow>
                 if 400 \<le> status resp
                 then Inl (on_raised (ClientError (status_error resp)))
                 else if startswith (strip text) ''<!'' \<or> startswith (strip text) ''<html''
                 then Inl (MatomoAPIError
                   (''Matomo returned HTML instead of JSON. Check if URL is correct: ''
                     @ base_url api))
                 else
                   (case json_loads api text of
                      None \<Rightarrow>
                        Inl (MatomoAPIError
                          (''Invalid JSON response from Matomo: '' @ take 200 text))
                    | Some data \<Rightarrow> Inr data)))"

text \<open>
  Lines 95 to 102. \<open>msg.lower()\<close> exists for a string only: a message of another type
  fails with \<open>AttributeError\<close>.
\<close>

definition error_check :: "json \<Rightarrow> exn + json" where
  "error_check data =
     (case data of
        JDict d \<Rightarrow>
          if dict_get d ''result'' = Some (JStr ''error'')
          then
            (case (case dict_get d ''message'' of
                     Some m \<Rightarrow> m
                   | None \<Rightarrow> JStr ''Unknown Matomo API error'') of
               JStr msg \<Rightarrow>
                 if str_in ''token'' (lower msg) \<or> str_in ''auth'' (lower msg)
                    \<or> str_in ''access'' (lower msg)
                 then Inl (MatomoAuthError msg)
                 else Inl (MatomoAPIError msg)
             | _ \<Rightarrow> Inl AttributeError)
          else Inr data
      | _ \<Rightarrow> Inr data)"

definition request :: "MatomoAPI \<Rightarrow> string \<Rightarrow> (string \<times> param) list \<Rightarrow> exn + json" where
  "request api method params =
     (case request_data api method params of
        Inl err \<Rightarrow> Inl err
      | Inr data \<Rightarrow> error_check data)"

subsection \<open>The calls of the coordinator\<close>

definition get_visit_summary :: "MatomoAPI \<Rightarrow> param \<Rightarrow> string \<Rightarrow> string \<Rightarrow> exn + json" where
  "get_visit_summary api site_id period date =
     (case request api ''VisitsSummary.get''
             [(''idSite'', site_id), (''period'', PStr period), (''date'', PStr date)] of
        Inl err \<Rightarrow> Inl err
      | Inr result \<Rightarrow> if result = JList [] then Inr (JDict []) else Inr result)"

definition get_actions :: "MatomoAPI \<Rightarrow> param \<Rightarrow> string \<Rightarrow> string \<Rightarrow> exn + json" where
  "get_actions api site_id period date =
     (case request api ''Actions.get''
             [(''idSite'', site_id), (''period'', PStr period), (''date'', PStr date)] of
        Inl err \<Rightarrow> Inl err
      | Inr result \<Rightarrow> if result = JList [] then Inr (JDict []) else Inr result)"

definition get_live_counters :: "MatomoAPI \<Rightarrow> int \<Rightarrow> int \<Rightarrow> exn + json" where
  "get_live_counters api site_id last_minutes =
     request api ''Live.getCounters''
       [(''idSite'', PInt site_id), (''lastMinutes'', PInt last_minutes)]"

text \<open>
  \<open>get_all_sites_summary\<close>, lines 154 to 167. The three nested loops, innermost first:
  over the items of one site, over the sites of one response, over the two methods.
  \<open>totals\<close> is a \<open>dict[str, int]\<close>.
\<close>

fun add_site_data :: "(string \<times> int) list \<Rightarrow> pydict \<Rightarrow> exn + (string \<times> int) list" where
  "add_site_data totals [] = Inr totals"
| "add_site_data totals ((key, value) # items) =
     (if is_int_or_float value
      then
        (case py_int value of
           Inl err \<Rightarrow> Inl err
         | Inr n \<Rightarrow>
             add_site_data
               (dict_set totals key
                  ((case dict_get totals key of Some t \<Rightarrow> t | None \<Rightarrow> 0) + n))
               items)
      else add_site_data totals items)"

fun add_result :: "(string \<times> int) list \<Rightarrow> pydict \<Rightarrow> exn + (string \<times> int) list" where
  "add_result totals [] = Inr totals"
| "add_result totals ((site, site_data) # sites) =
     (case site_data of
        JDict items \<Rightarrow>
          (case add_site_data totals items of
             Inl err \<Rightarrow> Inl err
           | Inr totals' \<Rightarrow> add_result totals' sites)
      | _ \<Rightarrow> add_result totals sites)"

fun add_methods ::
  "MatomoAPI \<Rightarrow> string \<Rightarrow> string \<Rightarrow> (string \<times> int) list \<Rightarrow> string list
    \<Rightarrow> exn + (string \<times> int) list" where
  "add_methods api period date totals [] = Inr totals"
| "add_methods api period date totals (api_method # methods) =
     (case request api api_method
             [(''idSite'', PStr ''all''), (''period'', PStr period), (''date'', PStr date)] of
        Inl err \<Rightarrow> Inl err
      | Inr result \<Rightarrow>
          (case result of
             JDict sites \<Rightarrow>
               (case add_result totals sites of
                  Inl err \<Rightarrow> Inl err
                | Inr totals' \<Rightarrow> add_methods api period date totals' methods)
           | _ \<Rightarrow> add_methods api period date totals methods))"

definition get_all_sites_summary ::
  "MatomoAPI \<Rightarrow> string \<Rightarrow> string \<Rightarrow> exn + (string \<times> int) list" where
  "get_all_sites_summary api period date =
     add_methods api period date [] [''VisitsSummary.get'', ''Actions.get'']"

subsection \<open>The sum of a metric over the sites\<close>








section \<open>The coordinator (coordinator.py)\<close>

record MatomoDataCoordinator =
  api :: MatomoAPI
  site_id :: int
  site_name :: string
  include_aggregate :: bool

text \<open>Lines 49 to 53: the dict \<open>merged\<close> of one period.\<close>

definition merged :: "json \<Rightarrow> json \<Rightarrow> pydict" where
  "merged summary actions =
     (let m0 = [];
          m1 = (case summary of JDict s \<Rightarrow> dict_update m0 s | _ \<Rightarrow> m0);
          m2 = (case actions of JDict a \<Rightarrow> dict_update m1 a | _ \<Rightarrow> m1)
      in m2)"

text \<open>
  The loop of lines 46 to 54 over the periods still to fetch; \<open>site\<close> is \<open>data["site"]\<close>.
  An exception of a call ends the loop.
\<close>

fun fetch_site :: "MatomoDataCoordinator \<Rightarrow> string list \<Rightarrow> pydict \<Rightarrow> exn + pydict" where
  "fetch_site c [] site = Inr site"
| "fetch_site c (period # periods) site =
     (case get_visit_summary (api c) (PInt (site_id c)) period ''today'' of
        Inl err \<Rightarrow> Inl err
      | Inr summary \<Rightarrow>
          (case get_actions (api c) (PInt (site_id c)) period ''today'' of
             Inl err \<Rightarrow> Inl err
           | Inr actions \<Rightarrow>
               fetch_site c periods (dict_set site period (JDict (merged summary actions)))))"

text \<open>
  Lines 57 to 65: the value stored in \<open>data["live"]\<close>. The clause
  \<open>except MatomoAPIError\<close> catches the errors of the client and no other exception.
\<close>

definition fetch_live :: "MatomoDataCoordinator \<Rightarrow> exn + json" where
  "fetch_live c =
     (case get_live_counters (api c) (site_id c) 30 of
        Inr live_result \<Rightarrow>
          (case live_result of
             JList (first # others) \<Rightarrow> Inr first
           | _ \<Rightarrow> Inr (JDict []))
      | Inl err \<Rightarrow> if is_MatomoAPIError err then Inr (JDict []) else Inl err)"

definition json_of_totals :: "(string \<times> int) list \<Rightarrow> json" where
  "json_of_totals totals = JDict (map (\<lambda>(key, n). (key, JInt n)) totals)"

text \<open>The loop of lines 70 to 72; \<open>aggregate\<close> is \<open>data["aggregate"]\<close>.\<close>

fun fetch_aggregate_periods ::
  "MatomoDataCoordinator \<Rightarrow> string list \<Rightarrow> pydict \<Rightarrow> exn + pydict" where
  "fetch_aggregate_periods c [] aggregate = Inr aggregate"
| "fetch_aggregate_periods c (period # periods) aggregate =
     (case get_all_sites_summary (api c) period ''today'' of
        Inl err \<Rightarrow> Inl err
      | Inr agg_result \<Rightarrow>
          fetch_aggregate_periods c periods
            (dict_set aggregate period (json_of_totals agg_result)))"

text \<open>Lines 68 to 75: the value of \<open>data["aggregate"]\<close> after them.\<close>

definition fetch_aggregate :: "MatomoDataCoordinator \<Rightarrow> exn + json" where
  "fetch_aggregate c =
     (if include_aggregate c
      then
        (case fetch_aggregate_periods c [''day'', ''week'', ''month''] [] of
           Inr aggregate \<Rightarrow> Inr (JDict aggregate)
         | Inl err \<Rightarrow> if is_MatomoAPIError err then Inr (JDict []) else Inl err)
      else Inr (JDict []))"

text \<open>The body of the outer \<open>try\<close>, lines 43 to 77.\<close>

definition update_data :: "MatomoDataCoordinator \<Rightarrow> exn + pydict" where
  "update_data c =
     (let data = [(''site'', JDict []), (''live'', JDict []), (''aggregate'', JDict [])]
      in case fetch_site c [''day'', ''week'', ''month''] [] of
           Inl err \<Rightarrow> Inl err
         | Inr site \<Rightarrow>
             (case fetch_live c of
                Inl err \<Rightarrow> Inl err
              | Inr live \<Rightarrow>
                  (case fetch_aggregate c of
                     Inl err \<Rightarrow> Inl err
                   | Inr aggregate \<Rightarrow>
                       Inr (dict_set
                              (dict_set (dict_set data ''site'' (JDict site)) ''live'' live)
                              ''aggregate'' aggregate))))"

text \<open>
  \<open>_async_update_data\<close> with its two \<open>except\<close> clauses, lines 79 to 82. The result is
  the snapshot, or the exception that reaches the host.
\<close>

definition async_update_data :: "MatomoDataCoordinator \<Rightarrow> exn + pydict" where
  "async_update_data c =
     (case update_data c of
        Inr data \<Rightarrow> Inr data
      | Inl err \<Rightarrow>
          (case err of
             MatomoAuthError msg \<Rightarrow> Inl (UpdateFailed (''Authentication failed: '' @ msg) err)
           | MatomoAPIError msg \<Rightarrow>
               Inl (UpdateFailed (''Error fetching Matomo data: '' @ msg) err)
           | _ \<Rightarrow> Inl err))"

subsection \<open>The six fetches of a cycle, in order\<close>

text \<open>
  The calls of the first loop in the order in which a cycle makes them. A call is made
  only when every call before it has returned, so a call that raises is the first entry
  of this list that is an exception.
\<close>

definition period_fetches :: "MatomoDataCoordinator \<Rightarrow> string \<Rightarrow> (exn + json) list" where
  "period_fetches c period =
     [get_visit_summary (api c) (PInt (site_id c)) period ''today'',
      get_actions (api c) (PInt (site_id c)) period ''today'']"

definition site_fetches :: "MatomoDataCoordinator \<Rightarrow> (exn + json) list" where
  "site_fetches c = concat (map (period_fetches c) [''day'', ''week'', ''month''])"

fun first_failure :: "(exn + 'a) list \<Rightarrow> exn option" where
  "first_failure [] = None"
| "first_failure (Inl err # rs) = Some err"
| "first_failure (Inr r # rs) = first_failure rs"

section \<open>The value functions of the sensors (sensor.py)\<close>





subsection \<open>The value at a path of the snapshot\<close>




section \<open>Example sessions\<close>

text \<open>
  A scripted server for the examples: the answer to a request is looked up under its
  method, its \<open>idSite\<close> and its \<open>period\<close>. The decoder of the examples knows the bodies
  that the scripted server sends and rejects every other text.
\<close>

type_synonym request_key = "param option \<times> param option \<times> param option"

definition request_key :: "http_request \<Rightarrow> request_key" where
  "request_key req =
     (dict_get (url_params req) ''method'',
      dict_get (post_data req) ''idSite'',
      dict_get (post_data req) ''period'')"

definition scripted ::
  "(request_key \<times> http_response outcome) list \<Rightarrow> http_request \<Rightarrow> http_response outcome" where
  "scripted table req =
     (case map_of table (request_key req) of
        Some answer \<Rightarrow> answer
      | None \<Rightarrow> Raises (ClientError ''Cannot connect to host''))"

definition http :: "int \<Rightarrow> string \<Rightarrow> http_response outcome" where
  "http code text =
     Returns \<lparr>status = code, status_error = ''HTTP error'', body = Returns text\<rparr>"

definition summary_key :: "string \<Rightarrow> param \<Rightarrow> string \<Rightarrow> request_key" where
  "summary_key method site period = (Some (PStr method), Some site, Some (PStr period))"

definition live_key :: "int \<Rightarrow> request_key" where
  "live_key site = (Some (PStr ''Live.getCounters''), Some (PInt site), None)"

definition visits_day_text :: string where
  \<open>visits_day_text = ''{"nb_uniq_visitors": 12, "nb_visits": 20}''\<close>

definition actions_day_text :: string where
  \<open>actions_day_text = ''{"nb_pageviews": 45, "nb_actions": 50}''\<close>

definition visits_week_text :: string where
  \<open>visits_week_text = ''{"nb_visits": 140, "nb_actions": 300, "bounce_rate": "60%"}''\<close>

definition actions_week_text :: string where
  \<open>actions_week_text = ''{"nb_actions": 310, "nb_pageviews": 280}''\<close>

definition live_text :: string where
  \<open>live_text = ''[{"visits": "3", "actions": "7", "visitors": "2"}]''\<close>

definition all_sites_text :: string where
  \<open>all_sites_text = ''{"1": {"nb_visits": 3}, "2": {"nb_visits": 5}}''\<close>

definition token_error_text :: string where
  \<open>token_error_text = ''{"result": "error", "message": "Invalid token_auth"}''\<close>

definition parameter_error_text :: string where
  \<open>parameter_error_text = ''{"result": "error", "message": "Unknown parameter"}''\<close>

definition example_loads :: "string \<Rightarrow> json option" where
  "example_loads = map_of
     [(''[]'', JList []),
      (''{}'', JDict []),
      (visits_day_text, JDict [(''nb_uniq_visitors'', JInt 12), (''nb_visits'', JInt 20)]),
      (actions_day_text, JDict [(''nb_pageviews'', JInt 45), (''nb_actions'', JInt 50)]),
      (visits_week_text,
         JDict [(''nb_visits'', JInt 140), (''nb_actions'', JInt 300),
                (''bounce_rate'', JStr ''60%'')]),
      (actions_week_text, JDict [(''nb_actions'', JInt 310), (''nb_pageviews'', JInt 280)]),
      (live_text,
         JList [JDict [(''visits'', JStr ''3''), (''actions'', JStr ''7''),
                       (''visitors'', JStr ''2'')]]),
      (all_sites_text,
         JDict [(''1'', JDict [(''nb_visits'', JInt 3)]),
                (''2'', JDict [(''nb_visits'', JInt 5)])]),
      (token_error_text,
         JDict [(''result'', JStr ''error''), (''message'', JStr ''Invalid token_auth'')]),
      (parameter_error_text,
         JDict [(''result'', JStr ''error''), (''message'', JStr ''Unknown parameter'')])]"

text \<open>
  Site 7 on a healthy server: the day of the end-to-end scenario, a week in which both
  summaries define \<open>nb_actions\<close>, a month without data, live counters, and the same two
  sites in both wildcard responses of every period.
\<close>

definition example_table :: "(request_key \<times> http_response outcome) list" where
  "example_table =
     [(summary_key ''VisitsSummary.get'' (PInt 7) ''day'', http 200 visits_day_text),
      (summary_key ''Actions.get'' (PInt 7) ''day'', http 200 actions_day_text),
      (summary_key ''VisitsSummary.get'' (PInt 7) ''week'', http 200 visits_week_text),
      (summary_key ''Actions.get'' (PInt 7) ''week'', http 200 actions_week_text),
      (summary_key ''VisitsSummary.get'' (PInt 7) ''month'', http 200 ''[]''),
      (summary_key ''Actions.get'' (PInt 7) ''month'', http 200 ''[]''),
      (live_key 7, http 200 live_text),
      (summary_key ''VisitsSummary.get'' (PStr ''all'') ''day'', http 200 all_sites_text),
      (summary_key ''Actions.get'' (PStr ''all'') ''day'', http 200 all_sites_text),
      (summary_key ''VisitsSummary.get'' (PStr ''all'') ''week'', http 200 all_sites_text),
      (summary_key ''Actions.get'' (PStr ''all'') ''week'', http 200 all_sites_text),
      (summary_key ''VisitsSummary.get'' (PStr ''all'') ''month'', http 200 all_sites_text),
      (summary_key ''Actions.get'' (PStr ''all'') ''month'', http 200 all_sites_text)]"

text \<open>The healthy server with some of its answers replaced.\<close>

definition example_api :: "(request_key \<times> http_response outcome) list \<Rightarrow> MatomoAPI" where
  "example_api replaced =
     \<lparr>session_post = scripted (replaced @ example_table),
      json_loads = example_loads,
      base_url = ''https://matomo.example/index.php'',
      token_auth = ''secret''\<rparr>"

definition example_coordinator ::
  "(request_key \<times> http_response outcome) list \<Rightarrow> bool \<Rightarrow> MatomoDataCoordinator" where
  "example_coordinator replaced aggregate =
     \<lparr>api = example_api replaced, site_id = 7, site_name = ''Example'',
      include_aggregate = aggregate\<rparr>"

text \<open>The snapshot of one cycle against the healthy server, without the aggregate.\<close>

definition example_site :: pydict where
  "example_site =
     [(''day'',
       JDict [(''nb_uniq_visitors'', JInt 12), (''nb_visits'', JInt 20),
              (''nb_pageviews'', JInt 45), (''nb_actions'', JInt 50)]),
      (''week'',
       JDict [(''nb_visits'', JInt 140), (''nb_actions'', JInt 310),
              (''bounce_rate'', JStr ''60%''), (''nb_pageviews'', JInt 280)]),
      (''month'', JDict [])]"

definition example_snapshot :: pydict where
  "example_snapshot =
     [(''site'', JDict example_site),
      (''live'',
       JDict [(''visits'', JStr ''3''), (''actions'', JStr ''7''), (''visitors'', JStr ''2'')]),
      (''aggregate'', JDict [])]"

section \<open>Dictionaries\<close>

lemma dict_get_set: "dict_get (dict_set d k v) k' = (if k' = k then Some v else dict_get d k')"
  by (induction d) (auto simp: dict_get_def)

lemma keys_dict_set:
  "map fst (dict_set d k v) = (if k \<in> set (map fst d) then map fst d else map fst d @ [k])"
  by (induction d) (force+)

lemma fold_set_get:
  "dict_get (fold (\<lambda>(k, v) acc. dict_set acc k v) other d) k' =
     (case map_of (rev other) k' of Some v \<Rightarrow> Some v | None \<Rightarrow> dict_get d k')"
  by (induction other arbitrary: d) (auto simp: dict_get_set split: option.splits)

lemma map_of_rev_distinct: "distinct (map fst xs) \<Longrightarrow> map_of (rev xs) = map_of xs"
  by (rule map_of_inject_set[THEN iffD2]) (simp_all add: distinct_rev rev_map[symmetric] del: rev_map)

lemma dict_get_update:
  "is_dict other \<Longrightarrow> dict_get (dict_update d other) k =
     (case dict_get other k of Some v \<Rightarrow> Some v | None \<Rightarrow> dict_get d k)"
  unfolding dict_update_def fold_set_get
  by (simp add: map_of_rev_distinct is_dict_def dict_get_def)

section \<open>The snapshot of a successful cycle\<close>

lemma merged_get:
  "is_dict s \<Longrightarrow> is_dict a \<Longrightarrow> dict_get (merged (JDict s) (JDict a)) k =
    (case dict_get a k of Some v \<Rightarrow> Some v | None \<Rightarrow> dict_get s k)"
  by (simp add: merged_def dict_get_update split: option.splits) (simp add: dict_get_def)

lemma fetch_site_keeps:
  "fetch_site c ps site0 = Inr site \<Longrightarrow> p \<notin> set ps \<Longrightarrow> dict_get site p = dict_get site0 p"
  by (induction ps arbitrary: site0) (auto simp: dict_get_set split: sum.splits)

lemma fetch_site_entry:
  "fetch_site c ps site0 = Inr site \<Longrightarrow> p \<in> set ps \<Longrightarrow>
     \<exists>s a. get_visit_summary (api c) (PInt (site_id c)) p ''today'' = Inr s
         \<and> get_actions (api c) (PInt (site_id c)) p ''today'' = Inr a
         \<and> dict_get site p = Some (JDict (merged s a))"
proof (induction ps arbitrary: site0)
  case Nil
  then show ?case by simp
next
  case (Cons q ps)
  from Cons.prems(1) obtain s a where
    s: "get_visit_summary (api c) (PInt (site_id c)) q ''today'' = Inr s" and
    a: "get_actions (api c) (PInt (site_id c)) q ''today'' = Inr a" and
    rest: "fetch_site c ps (dict_set site0 q (JDict (merged s a))) = Inr site"
    by (auto split: sum.splits)
  show ?case
  proof (cases "p \<in> set ps")
    case True
    from Cons.IH[OF rest True] show ?thesis .
  next
    case False
    with Cons.prems(2) have "p = q" by simp
    with fetch_site_keeps[OF rest False] s a show ?thesis
      by (simp add: dict_get_set)
  qed
qed

lemma update_data_Inr:
  "update_data c = Inr data \<Longrightarrow>
     \<exists>site live aggregate.
        fetch_site c [''day'', ''week'', ''month''] [] = Inr site
      \<and> fetch_live c = Inr live \<and> fetch_aggregate c = Inr aggregate
      \<and> data = [(''site'', JDict site), (''live'', live), (''aggregate'', aggregate)]"
  by (auto simp: update_data_def split: sum.splits)

lemma async_update_data_Inr:
  "async_update_data c = Inr data \<longleftrightarrow> update_data c = Inr data"
  by (auto simp: async_update_data_def split: sum.splits exn.splits)

lemma snapshot_site_entry:
  assumes "async_update_data c = Inr data" and "p \<in> set [''day'', ''week'', ''month'']"
  shows "\<exists>site s a. dict_get data ''site'' = Some (JDict site)
      \<and> get_visit_summary (api c) (PInt (site_id c)) p ''today'' = Inr s
      \<and> get_actions (api c) (PInt (site_id c)) p ''today'' = Inr a
      \<and> dict_get site p = Some (JDict (merged s a))"
proof -
  from assms(1) obtain site live aggregate where
    site: "fetch_site c [''day'', ''week'', ''month''] [] = Inr site" and
    data: "data = [(''site'', JDict site), (''live'', live), (''aggregate'', aggregate)]"
    using update_data_Inr[of c data] unfolding async_update_data_Inr by blast
  from fetch_site_entry[OF site assms(2)] data show ?thesis
    by (auto simp: dict_get_def)
qed

lemma example_cycle: "async_update_data (example_coordinator [] False) = Inr example_snapshot"
  by code_simp

section \<open>Merging the two summaries of a period\<close>

text \<open>
  Claim C4. In the snapshot of a successful cycle, for every period whose visit summary
  and actions summary are both mappings, the mapping stored under \<open>site[period]\<close> gives
  every key of the actions summary the value of the actions summary, and every other key
  of the visit summary the value of the visit summary; a key of neither is absent.
\<close>

theorem merge_prefers_actions:
  assumes "async_update_data c = Inr data"
    and "period \<in> set [''day'', ''week'', ''month'']"
    and "get_visit_summary (api c) (PInt (site_id c)) period ''today'' = Inr (JDict summary)"
    and "get_actions (api c) (PInt (site_id c)) period ''today'' = Inr (JDict actions)"
    and "is_dict summary" and "is_dict actions"
  shows "\<exists>site m. dict_get data ''site'' = Some (JDict site)
      \<and> dict_get site period = Some (JDict m)
      \<and> (\<forall>key. dict_get m key =
            (case dict_get actions key of
               Some v \<Rightarrow> Some v
             | None \<Rightarrow> dict_get summary key))"
proof -
  from snapshot_site_entry[OF assms(1,2)] assms(3,4) obtain site where
    "dict_get data ''site'' = Some (JDict site)"
    "dict_get site period = Some (JDict (merged (JDict summary) (JDict actions)))"
    by auto
  with merged_get[OF assms(5,6)] show ?thesis by blast
qed


theorem merge_prefers_actions_witness:
  "async_update_data (example_coordinator [] False) = Inr example_snapshot
   \<and> get_visit_summary (example_api []) (PInt 7) ''week'' ''today''
       = Inr (JDict [(''nb_visits'', JInt 140), (''nb_actions'', JInt 300),
                     (''bounce_rate'', JStr ''60%'')])
   \<and> get_actions (example_api []) (PInt 7) ''week'' ''today''
       = Inr (JDict [(''nb_actions'', JInt 310), (''nb_pageviews'', JInt 280)])
   \<and> (\<exists>sites m. dict_get example_snapshot ''site'' = Some (JDict sites)
        \<and> dict_get sites ''week'' = Some (JDict m)
        \<and> dict_get m ''nb_actions'' = Some (JInt 310)
        \<and> dict_get m ''nb_visits'' = Some (JInt 140)
        \<and> dict_get m ''nb_pageviews'' = Some (JInt 280)
        \<and> dict_get m ''nb_users'' = None)"
proof -
  let ?c = "example_coordinator [] False"
  let ?s = "[(''nb_visits'', JInt 140), (''nb_actions'', JInt 300),
             (''bounce_rate'', JStr ''60%'')]"
  let ?a = "[(''nb_actions'', JInt 310), (''nb_pageviews'', JInt 280)]"
  have s: "get_visit_summary (api ?c) (PInt (site_id ?c)) ''week'' ''today'' = Inr (JDict ?s)"
    by code_simp
  have a: "get_actions (api ?c) (PInt (site_id ?c)) ''week'' ''today'' = Inr (JDict ?a)"
    by code_simp
  have p: "''week'' \<in> set [''day'', ''week'', ''month'']" by simp
  have ds: "is_dict ?s" and da: "is_dict ?a" by (simp_all add: is_dict_def)
  have sel: "api ?c = example_api []" "site_id ?c = 7"
    by (simp_all add: example_coordinator_def)
  from merge_prefers_actions[OF example_cycle p s a ds da] obtain sites m where
    m: "dict_get example_snapshot ''site'' = Some (JDict sites)"
       "dict_get sites ''week'' = Some (JDict m)"
       "\<forall>key. dict_get m key =
          (case dict_get ?a key of Some v \<Rightarrow> Some v | None \<Rightarrow> dict_get ?s key)"
    by blast
  from m(3) have "dict_get m ''nb_actions'' = Some (JInt 310)"
    "dict_get m ''nb_visits'' = Some (JInt 140)"
    "dict_get m ''nb_pageviews'' = Some (JInt 280)"
    "dict_get m ''nb_users'' = None"
    by (simp_all add: dict_get_def)
  with m(1,2) s a sel example_cycle show ?thesis by auto
qed

section \<open>Empty sequences\<close>

lemma merged_empty: "merged (JDict []) (JDict []) = []"
  by (simp add: merged_def dict_update_def)

text \<open>
  Claim C8. When the response of the API to a visit summary or actions summary call is
  the empty sequence, the call returns the empty mapping, neither an error nor a
  sequence; when both summaries of a period are empty sequences, the snapshot of the
  cycle holds the empty mapping under \<open>site[period]\<close>.
\<close>

theorem empty_sequence_is_empty_mapping:
  "(request client ''VisitsSummary.get''
       [(''idSite'', site), (''period'', PStr period), (''date'', PStr date)] = Inr (JList [])
     \<longrightarrow> get_visit_summary client site period date = Inr (JDict []))
   \<and> (request client ''Actions.get''
       [(''idSite'', site), (''period'', PStr period), (''date'', PStr date)] = Inr (JList [])
     \<longrightarrow> get_actions client site period date = Inr (JDict []))
   \<and> (async_update_data c = Inr data \<and> p \<in> set [''day'', ''week'', ''month'']
       \<and> request (api c) ''VisitsSummary.get''
           [(''idSite'', PInt (site_id c)), (''period'', PStr p), (''date'', PStr ''today'')]
           = Inr (JList [])
       \<and> request (api c) ''Actions.get''
           [(''idSite'', PInt (site_id c)), (''period'', PStr p), (''date'', PStr ''today'')]
           = Inr (JList [])
     \<longrightarrow> (\<exists>sites. dict_get data ''site'' = Some (JDict sites)
            \<and> dict_get sites p = Some (JDict [])))"
proof (intro conjI impI)
  assume h: "async_update_data c = Inr data \<and> p \<in> set [''day'', ''week'', ''month'']
       \<and> request (api c) ''VisitsSummary.get''
           [(''idSite'', PInt (site_id c)), (''period'', PStr p), (''date'', PStr ''today'')]
           = Inr (JList [])
       \<and> request (api c) ''Actions.get''
           [(''idSite'', PInt (site_id c)), (''period'', PStr p), (''date'', PStr ''today'')]
           = Inr (JList [])"
  then have s: "get_visit_summary (api c) (PInt (site_id c)) p ''today'' = Inr (JDict [])"
    and a: "get_actions (api c) (PInt (site_id c)) p ''today'' = Inr (JDict [])"
    by (simp_all add: get_visit_summary_def get_actions_def)
  from h have "async_update_data c = Inr data" "p \<in> set [''day'', ''week'', ''month'']"
    by blast+
  from snapshot_site_entry[OF this] s a
  show "\<exists>sites. dict_get data ''site'' = Some (JDict sites) \<and> dict_get sites p = Some (JDict [])"
    by (auto simp: merged_empty)
qed (simp_all add: get_visit_summary_def get_actions_def)

theorem empty_sequence_is_empty_mapping_witness:
  "request (example_api []) ''VisitsSummary.get''
       [(''idSite'', PInt 7), (''period'', PStr ''month''), (''date'', PStr ''today'')] = Inr (JList [])
   \<and> get_visit_summary (example_api []) (PInt 7) ''month'' ''today'' = Inr (JDict [])
   \<and> request (example_api []) ''Actions.get''
       [(''idSite'', PInt 7), (''period'', PStr ''month''), (''date'', PStr ''today'')] = Inr (JList [])
   \<and> get_actions (example_api []) (PInt 7) ''month'' ''today'' = Inr (JDict [])
   \<and> async_update_data (example_coordinator [] False) = Inr example_snapshot
   \<and> (\<exists>sites. dict_get example_snapshot ''site'' = Some (JDict sites)
            \<and> dict_get sites ''month'' = Some (JDict []))"
proof -
  have v: "request (example_api []) ''VisitsSummary.get''
       [(''idSite'', PInt 7), (''period'', PStr ''month''), (''date'', PStr ''today'')] = Inr (JList [])"
    by code_simp
  have a: "request (example_api []) ''Actions.get''
       [(''idSite'', PInt 7), (''period'', PStr ''month''), (''date'', PStr ''today'')] = Inr (JList [])"
    by code_simp
  have sel: "api (example_coordinator [] False) = example_api []"
    "site_id (example_coordinator [] False) = 7"
    by (simp_all add: example_coordinator_def)
  show ?thesis
    using empty_sequence_is_empty_mapping
      [of "example_api []" "PInt 7" "''month''" "''today''" "example_coordinator [] False"
          example_snapshot "''month''"]
      v a example_cycle sel
    by simp
qed

section \<open>Error responses\<close>





section \<open>The kinds of failure of the client\<close>

lemma error_check_kinds:
  "error_check data = Inl err \<Longrightarrow> is_MatomoAPIError err \<or> err = AttributeError"
  by (auto simp: error_check_def split: json.splits if_splits option.splits)

lemma on_raised_kinds: "is_MatomoAPIError (on_raised r) \<or> (\<exists>n. on_raised r = Uncaught n)"
  by (cases r) simp_all

lemma request_data_kinds:
  "request_data client method params = Inl err \<Longrightarrow>
     is_MatomoAPIError err \<or> (\<exists>n. err = Uncaught n)"
  using on_raised_kinds
  by (auto simp: request_data_def split: outcome.splits if_splits option.splits)




section \<open>The aggregate over all sites\<close>









section \<open>A failed summary fetch\<close>






section \<open>A failed live fetch\<close>

lemma fetch_site_success:
  assumes "\<forall>period\<in>set ps.
      get_visit_summary (api c) (PInt (site_id c)) period ''today'' = Inr (summary period)
    \<and> get_actions (api c) (PInt (site_id c)) period ''today'' = Inr (actions period)"
  shows "fetch_site c ps site =
     Inr (fold (\<lambda>period site.
                  dict_set site period (JDict (merged (summary period) (actions period))))
            ps site)"
  using assms by (induction ps arbitrary: site) simp_all

lemma fetch_live_caught:
  "get_live_counters (api c) (site_id c) 30 = Inl err \<Longrightarrow> is_MatomoAPIError err \<Longrightarrow>
     fetch_live c = Inr (JDict [])"
  by (simp add: fetch_live_def)

lemma fetch_aggregate_periods_failure:
  "fetch_aggregate_periods c ps aggregate = Inl err \<Longrightarrow>
     \<exists>period\<in>set ps. get_all_sites_summary (api c) period ''today'' = Inl err"
  by (induction ps arbitrary: aggregate) (auto split: sum.splits)

lemma fetch_aggregate_periods_fails:
  "period \<in> set ps \<Longrightarrow> get_all_sites_summary (api c) period ''today'' = Inl err \<Longrightarrow>
     \<exists>err'. fetch_aggregate_periods c ps aggregate = Inl err'"
  by (induction ps arbitrary: aggregate) (auto split: sum.splits)

lemma fetch_aggregate_completes:
  assumes "include_aggregate c \<longrightarrow>
     (\<forall>period\<in>set [''day'', ''week'', ''month'']. \<forall>err.
        get_all_sites_summary (api c) period ''today'' = Inl err \<longrightarrow> is_MatomoAPIError err)"
  shows "\<exists>aggregate. fetch_aggregate c = Inr aggregate"
proof (cases "include_aggregate c")
  case False
  then show ?thesis by (simp add: fetch_aggregate_def)
next
  case True
  show ?thesis
  proof (cases "fetch_aggregate_periods c [''day'', ''week'', ''month''] []")
    case (Inr aggregate)
    with True show ?thesis by (simp add: fetch_aggregate_def del: fetch_aggregate_periods.simps)
  next
    case (Inl err)
    from fetch_aggregate_periods_failure[OF this] assms True
    have "is_MatomoAPIError err" by blast
    with True Inl show ?thesis
      by (simp add: fetch_aggregate_def del: fetch_aggregate_periods.simps)
  qed
qed

lemma cycle_with_live_caught:
  assumes six: "\<forall>period\<in>set [''day'', ''week'', ''month''].
      get_visit_summary (api c) (PInt (site_id c)) period ''today'' = Inr (summary period)
    \<and> get_actions (api c) (PInt (site_id c)) period ''today'' = Inr (actions period)"
    and live: "get_live_counters (api c) (site_id c) 30 = Inl err" "is_MatomoAPIError err"
    and agg: "fetch_aggregate c = Inr aggregate"
  shows "async_update_data c =
     Inr [(''site'',
           JDict [(''day'', JDict (merged (summary ''day'') (actions ''day''))),
                  (''week'', JDict (merged (summary ''week'') (actions ''week''))),
                  (''month'', JDict (merged (summary ''month'') (actions ''month'')))]),
          (''live'', JDict []),
          (''aggregate'', aggregate)]"
proof -
  have "fetch_site c [''day'', ''week'', ''month''] [] =
     Inr [(''day'', JDict (merged (summary ''day'') (actions ''day''))),
          (''week'', JDict (merged (summary ''week'') (actions ''week''))),
          (''month'', JDict (merged (summary ''month'') (actions ''month'')))]"
    unfolding fetch_site_success[OF six] by simp
  with fetch_live_caught[OF live] agg show ?thesis
    by (simp add: async_update_data_def update_data_def del: fetch_site.simps)
qed

text \<open>
  Claim C2, as amended. In a cycle in which the six summary fetches succeed and the live
  fetch raises \<open>MatomoAPIError\<close>, and in which no aggregate fetch, when the aggregate is
  enabled, raises an exception outside \<open>MatomoAPIError\<close>, the cycle returns a snapshot
  whose \<open>site\<close> holds the merged mapping of each of the three periods and whose \<open>live\<close> is
  the empty mapping.
\<close>

theorem live_failure_is_isolated:
  assumes "\<forall>period\<in>set [''day'', ''week'', ''month''].
      get_visit_summary (api c) (PInt (site_id c)) period ''today'' = Inr (summary period)
    \<and> get_actions (api c) (PInt (site_id c)) period ''today'' = Inr (actions period)"
    and "get_live_counters (api c) (site_id c) 30 = Inl (MatomoAPIError msg)"
    and "include_aggregate c \<longrightarrow>
     (\<forall>period\<in>set [''day'', ''week'', ''month'']. \<forall>err.
        get_all_sites_summary (api c) period ''today'' = Inl err \<longrightarrow> is_MatomoAPIError err)"
  shows "\<exists>aggregate. async_update_data c =
     Inr [(''site'',
           JDict [(''day'', JDict (merged (summary ''day'') (actions ''day''))),
                  (''week'', JDict (merged (summary ''week'') (actions ''week''))),
                  (''month'', JDict (merged (summary ''month'') (actions ''month'')))]),
          (''live'', JDict []),
          (''aggregate'', aggregate)]"
proof -
  from fetch_aggregate_completes[OF assms(3)] obtain aggregate where
    "fetch_aggregate c = Inr aggregate" by blast
  from cycle_with_live_caught[OF assms(1,2) _ this] show ?thesis by auto
qed

theorem live_failure_is_isolated_witness:
  "get_live_counters (api (example_coordinator [(live_key 7, http 200 parameter_error_text)] True))
       (site_id (example_coordinator [(live_key 7, http 200 parameter_error_text)] True)) 30
     = Inl (MatomoAPIError ''Unknown parameter'')
   \<and> first_failure
        (site_fetches (example_coordinator [(live_key 7, http 200 parameter_error_text)] True))
     = None
   \<and> include_aggregate (example_coordinator [(live_key 7, http 200 parameter_error_text)] True)
   \<and> (\<exists>aggregate.
         async_update_data (example_coordinator [(live_key 7, http 200 parameter_error_text)] True)
         = Inr [(''site'', JDict example_site), (''live'', JDict []),
                (''aggregate'', aggregate)])"
proof -
  let ?c = "example_coordinator [(live_key 7, http 200 parameter_error_text)] True"
  let ?s = "\<lambda>p. if p = ''day'' then JDict [(''nb_uniq_visitors'', JInt 12), (''nb_visits'', JInt 20)]
      else if p = ''week'' then JDict [(''nb_visits'', JInt 140), (''nb_actions'', JInt 300),
                (''bounce_rate'', JStr ''60%'')]
      else JDict []"
  let ?a = "\<lambda>p. if p = ''day'' then JDict [(''nb_pageviews'', JInt 45), (''nb_actions'', JInt 50)]
      else if p = ''week'' then JDict [(''nb_actions'', JInt 310), (''nb_pageviews'', JInt 280)]
      else JDict []"
  have six: "\<forall>period\<in>set [''day'', ''week'', ''month''].
      get_visit_summary (api ?c) (PInt (site_id ?c)) period ''today'' = Inr (?s period)
    \<and> get_actions (api ?c) (PInt (site_id ?c)) period ''today'' = Inr (?a period)"
    by code_simp
  have live: "get_live_counters (api ?c) (site_id ?c) 30 = Inl (MatomoAPIError ''Unknown parameter'')"
    by code_simp
  have "\<forall>period\<in>set [''day'', ''week'', ''month''].
      \<not> isl (get_all_sites_summary (api ?c) period ''today'')"
    by code_simp
  then have agg: "include_aggregate ?c \<longrightarrow>
     (\<forall>period\<in>set [''day'', ''week'', ''month'']. \<forall>err.
        get_all_sites_summary (api ?c) period ''today'' = Inl err \<longrightarrow> is_MatomoAPIError err)"
    by (metis sum.disc(1))
  have m: "[(''day'', JDict (merged (?s ''day'') (?a ''day''))),
            (''week'', JDict (merged (?s ''week'') (?a ''week''))),
            (''month'', JDict (merged (?s ''month'') (?a ''month'')))] = example_site"
    by code_simp
  have none: "first_failure (site_fetches ?c) = None" by code_simp
  have inc: "include_aggregate ?c" by code_simp
  from live_failure_is_isolated[OF six live agg] m live none inc show ?thesis by simp
qed

text \<open>
  The claim as stated fails where the aggregate is enabled: the six fetches succeed, the
  live fetch raises \<open>MatomoAPIError\<close>, and an exception of the session that is not a
  \<open>ClientError\<close>, raised during the first aggregate fetch, passes every \<open>except\<close> clause
  and ends the cycle.
\<close>

theorem live_failure_counterexample:
  "first_failure (site_fetches (example_coordinator
       [(live_key 7, http 200 parameter_error_text),
        (summary_key ''VisitsSummary.get'' (PStr ''all'') ''day'',
           Raises (NonClientError ''TimeoutError''))] True)) = None
   \<and> get_live_counters (example_api
       [(live_key 7, http 200 parameter_error_text),
        (summary_key ''VisitsSummary.get'' (PStr ''all'') ''day'',
           Raises (NonClientError ''TimeoutError''))]) 7 30
     = Inl (MatomoAPIError ''Unknown parameter'')
   \<and> async_update_data (example_coordinator
       [(live_key 7, http 200 parameter_error_text),
        (summary_key ''VisitsSummary.get'' (PStr ''all'') ''day'',
           Raises (NonClientError ''TimeoutError''))] True)
     = Inl (Uncaught ''TimeoutError'')"
  by code_simp

section \<open>An authentication error of the live fetch\<close>

lemma request_kinds:
  "request client name params = Inl err \<Longrightarrow>
     is_MatomoAPIError err \<or> err = AttributeError \<or> (\<exists>n. err = Uncaught n)"
  using request_data_kinds[where err = err] error_check_kinds[where err = err]
  by (auto simp: request_def split: sum.splits)

lemma add_site_data_kinds:
  "add_site_data totals items = Inl err \<Longrightarrow> err = ValueError \<or> err = OverflowError"
proof (induction items arbitrary: totals)
  case Nil
  then show ?case by simp
next
  case (Cons kv items)
  obtain k v where kv: "kv = (k, v)" by (cases kv)
  show ?case
  proof (cases "is_int_or_float v")
    case False
    with Cons kv show ?thesis by simp
  next
    case True
    show ?thesis
    proof (cases "py_int v")
      case (Inl e)
      with True have "e = ValueError \<or> e = OverflowError"
        by (cases v rule: py_int.cases) auto
      with Cons.prems kv True Inl show ?thesis by simp
    next
      case (Inr n)
      with Cons kv True show ?thesis by simp
    qed
  qed
qed

lemma add_result_kinds:
  "add_result totals sites = Inl err \<Longrightarrow> err = ValueError \<or> err = OverflowError"
proof (induction sites arbitrary: totals)
  case Nil
  then show ?case by simp
next
  case (Cons sd sites)
  obtain site site_data where sd: "sd = (site, site_data)" by (cases sd)
  from Cons sd show ?case
    by (cases site_data) (auto split: sum.splits dest: add_site_data_kinds)
qed

lemma add_methods_kinds:
  "add_methods client period date totals methods = Inl err \<Longrightarrow>
     \<forall>m cause. err \<noteq> UpdateFailed m cause"
proof (induction methods arbitrary: totals)
  case Nil
  then show ?case by simp
next
  case (Cons name methods)
  show ?case
  proof (cases "request client name
             [(''idSite'', PStr ''all''), (''period'', PStr period), (''date'', PStr date)]")
    case (Inl e)
    with Cons.prems have "err = e" by simp
    with request_kinds[OF Inl] show ?thesis by auto
  next
    case (Inr result)
    show ?thesis
    proof (cases "\<exists>sites. result = JDict sites")
      case False
      with Cons Inr show ?thesis by (cases result) simp_all
    next
      case True
      then obtain sites where r: "result = JDict sites" by blast
      show ?thesis
      proof (cases "add_result totals sites")
        case (Inl e)
        with Cons.prems Inr r have "err = e" by simp
        with add_result_kinds[OF Inl] show ?thesis by auto
      next
        case (Inr totals')
        with Cons \<open>request client name _ = Inr result\<close> r show ?thesis by simp
      qed
    qed
  qed
qed

lemma fetch_aggregate_failure:
  assumes "fetch_aggregate c = Inl err"
  shows "\<not> is_MatomoAPIError err \<and> (\<forall>m cause. err \<noteq> UpdateFailed m cause)"
proof -
  from assms have inc: "include_aggregate c"
    and run: "fetch_aggregate_periods c [''day'', ''week'', ''month''] [] = Inl err"
    and cls: "\<not> is_MatomoAPIError err"
    by (auto simp: fetch_aggregate_def simp del: fetch_aggregate_periods.simps
             split: if_splits sum.splits)
  from fetch_aggregate_periods_failure[OF run] obtain period where
    "get_all_sites_summary (api c) period ''today'' = Inl err" by blast
  then have "\<forall>m cause. err \<noteq> UpdateFailed m cause"
    unfolding get_all_sites_summary_def by (rule add_methods_kinds)
  with cls show ?thesis by blast
qed

text \<open>
  Claim C10, as amended. When the six summary fetches succeed and the live fetch raises
  \<open>MatomoAuthError\<close>, the clause \<open>except MatomoAPIError\<close> around the live fetch catches
  it: \<open>live\<close> becomes the empty mapping and the cycle never raises \<open>UpdateFailed\<close>. The
  cycle returns a snapshot, with the merged summaries and the empty \<open>live\<close>, whenever no
  aggregate fetch, when the aggregate is enabled, raises an exception outside
  \<open>MatomoAPIError\<close>.
\<close>

theorem live_auth_error_is_swallowed:
  assumes "\<forall>period\<in>set [''day'', ''week'', ''month''].
      get_visit_summary (api c) (PInt (site_id c)) period ''today'' = Inr (summary period)
    \<and> get_actions (api c) (PInt (site_id c)) period ''today'' = Inr (actions period)"
    and "get_live_counters (api c) (site_id c) 30 = Inl (MatomoAuthError msg)"
  shows "fetch_live c = Inr (JDict [])
     \<and> (\<forall>m cause. async_update_data c \<noteq> Inl (UpdateFailed m cause))
     \<and> ((include_aggregate c \<longrightarrow>
           (\<forall>period\<in>set [''day'', ''week'', ''month'']. \<forall>err.
              get_all_sites_summary (api c) period ''today'' = Inl err
                \<longrightarrow> is_MatomoAPIError err))
         \<longrightarrow> (\<exists>aggregate. async_update_data c =
               Inr [(''site'',
                     JDict [(''day'', JDict (merged (summary ''day'') (actions ''day''))),
                            (''week'', JDict (merged (summary ''week'') (actions ''week''))),
                            (''month'',
                               JDict (merged (summary ''month'') (actions ''month'')))]),
                    (''live'', JDict []),
                    (''aggregate'', aggregate)]))"
proof (intro conjI allI impI)
  have auth: "is_MatomoAPIError (MatomoAuthError msg)" by simp
  show live: "fetch_live c = Inr (JDict [])"
    using fetch_live_caught[OF assms(2) auth] .
  have site: "\<exists>site. fetch_site c [''day'', ''week'', ''month''] [] = Inr site"
    unfolding fetch_site_success[OF assms(1)] by blast
  show "async_update_data c \<noteq> Inl (UpdateFailed m cause)" for m cause
  proof (cases "fetch_aggregate c")
    case (Inr aggregate)
    from cycle_with_live_caught[OF assms(1,2) auth Inr] show ?thesis by simp
  next
    case (Inl err)
    from fetch_aggregate_failure[OF Inl] have
      e: "\<not> is_MatomoAPIError err" "err \<noteq> UpdateFailed m cause" by blast+
    from site live Inl have "update_data c = Inl err"
      by (auto simp: update_data_def simp del: fetch_site.simps)
    with e show ?thesis
      by (cases err) (simp_all add: async_update_data_def)
  qed
  assume "include_aggregate c \<longrightarrow>
           (\<forall>period\<in>set [''day'', ''week'', ''month'']. \<forall>err.
              get_all_sites_summary (api c) period ''today'' = Inl err
                \<longrightarrow> is_MatomoAPIError err)"
  from fetch_aggregate_completes[OF this] obtain aggregate where
    "fetch_aggregate c = Inr aggregate" by blast
  from cycle_with_live_caught[OF assms(1,2) auth this]
  show "\<exists>aggregate. async_update_data c =
               Inr [(''site'',
                     JDict [(''day'', JDict (merged (summary ''day'') (actions ''day''))),
                            (''week'', JDict (merged (summary ''week'') (actions ''week''))),
                            (''month'',
                               JDict (merged (summary ''month'') (actions ''month'')))]),
                    (''live'', JDict []),
                    (''aggregate'', aggregate)]"
    by blast
qed

theorem live_auth_error_is_swallowed_witness:
  "get_live_counters (api (example_coordinator [(live_key 7, http 200 token_error_text)] False))
       (site_id (example_coordinator [(live_key 7, http 200 token_error_text)] False)) 30
     = Inl (MatomoAuthError ''Invalid token_auth'')
   \<and> first_failure
        (site_fetches (example_coordinator [(live_key 7, http 200 token_error_text)] False))
     = None
   \<and> fetch_live (example_coordinator [(live_key 7, http 200 token_error_text)] False)
     = Inr (JDict [])
   \<and> (\<exists>aggregate.
         async_update_data (example_coordinator [(live_key 7, http 200 token_error_text)] False)
         = Inr [(''site'', JDict example_site), (''live'', JDict []),
                (''aggregate'', aggregate)])"
proof -
  let ?c = "example_coordinator [(live_key 7, http 200 token_error_text)] False"
  let ?s = "\<lambda>p. if p = ''day'' then JDict [(''nb_uniq_visitors'', JInt 12), (''nb_visits'', JInt 20)]
      else if p = ''week'' then JDict [(''nb_visits'', JInt 140), (''nb_actions'', JInt 300),
                (''bounce_rate'', JStr ''60%'')]
      else JDict []"
  let ?a = "\<lambda>p. if p = ''day'' then JDict [(''nb_pageviews'', JInt 45), (''nb_actions'', JInt 50)]
      else if p = ''week'' then JDict [(''nb_actions'', JInt 310), (''nb_pageviews'', JInt 280)]
      else JDict []"
  have six: "\<forall>period\<in>set [''day'', ''week'', ''month''].
      get_visit_summary (api ?c) (PInt (site_id ?c)) period ''today'' = Inr (?s period)
    \<and> get_actions (api ?c) (PInt (site_id ?c)) period ''today'' = Inr (?a period)"
    by code_simp
  have live: "get_live_counters (api ?c) (site_id ?c) 30 = Inl (MatomoAuthError ''Invalid token_auth'')"
    by code_simp
  have off: "\<not> include_aggregate ?c" by code_simp
  have m: "[(''day'', JDict (merged (?s ''day'') (?a ''day''))),
            (''week'', JDict (merged (?s ''week'') (?a ''week''))),
            (''month'', JDict (merged (?s ''month'') (?a ''month'')))] = example_site"
    by code_simp
  have none: "first_failure (site_fetches ?c) = None" by code_simp
  from live_auth_error_is_swallowed[OF six live] off m live none show ?thesis by simp
qed

text \<open>
  The claim as stated fails in its last part where the aggregate is enabled: after the
  swallowed authentication error the cycle is not reported successful when an exception
  of the session that is not a \<open>ClientError\<close> is raised during an aggregate fetch.
\<close>

theorem live_auth_error_counterexample:
  "first_failure (site_fetches (example_coordinator
       [(live_key 7, http 200 token_error_text),
        (summary_key ''Actions.get'' (PStr ''all'') ''month'',
           Raises (NonClientError ''TimeoutError''))] True)) = None
   \<and> get_live_counters (example_api
       [(live_key 7, http 200 token_error_text),
        (summary_key ''Actions.get'' (PStr ''all'') ''month'',
           Raises (NonClientError ''TimeoutError''))]) 7 30
     = Inl (MatomoAuthError ''Invalid token_auth'')
   \<and> async_update_data (example_coordinator
       [(live_key 7, http 200 token_error_text),
        (summary_key ''Actions.get'' (PStr ''all'') ''month'',
           Raises (NonClientError ''TimeoutError''))] True)
     = Inl (Uncaught ''TimeoutError'')"
  by code_simp

section \<open>The shape of a snapshot\<close>

lemma fetch_live_after_failure:
  "get_live_counters (api c) (site_id c) 30 = Inl err \<Longrightarrow> fetch_live c = Inr live \<Longrightarrow>
     live = JDict []"
  by (auto simp: fetch_live_def split: if_splits)

lemma fetch_aggregate_is_mapping:
  "fetch_aggregate c = Inr aggregate \<Longrightarrow> \<exists>periods. aggregate = JDict periods"
  by (auto simp: fetch_aggregate_def simp del: fetch_aggregate_periods.simps
           split: if_splits sum.splits)

lemma fetch_aggregate_after_failure:
  assumes "fetch_aggregate c = Inr aggregate"
    and "period \<in> set [''day'', ''week'', ''month'']"
    and "get_all_sites_summary (api c) period ''today'' = Inl err"
  shows "aggregate = JDict []"
proof -
  from fetch_aggregate_periods_fails[OF assms(2,3)] obtain err' where
    "fetch_aggregate_periods c [''day'', ''week'', ''month''] [] = Inl err'" by blast
  with assms(1) show ?thesis
    by (auto simp: fetch_aggregate_def simp del: fetch_aggregate_periods.simps
             split: if_splits)
qed

text \<open>
  Claim C3. The snapshot that a successful cycle returns has exactly the three
  partitions \<open>site\<close>, \<open>live\<close> and \<open>aggregate\<close>; \<open>site\<close> and \<open>aggregate\<close> are mappings, and
  \<open>site\<close> holds a mapping for each of day, week and month. When the live fetch has failed,
  \<open>live\<close> is the empty mapping; when the aggregate is disabled or one of its fetches has
  failed, \<open>aggregate\<close> is the empty mapping.
\<close>

theorem snapshot_is_fully_formed:
  assumes "async_update_data c = Inr data"
  shows "\<exists>site live aggregate.
       data = [(''site'', JDict site), (''live'', live), (''aggregate'', JDict aggregate)]
     \<and> (\<forall>period\<in>set [''day'', ''week'', ''month''].
           \<exists>metrics. dict_get site period = Some (JDict metrics))
     \<and> ((\<exists>err. get_live_counters (api c) (site_id c) 30 = Inl err) \<longrightarrow> live = JDict [])
     \<and> (\<not> include_aggregate c \<longrightarrow> aggregate = [])
     \<and> ((\<exists>period\<in>set [''day'', ''week'', ''month''].
            \<exists>err. get_all_sites_summary (api c) period ''today'' = Inl err)
          \<longrightarrow> aggregate = [])"
proof -
  from assms have "update_data c = Inr data" by (simp add: async_update_data_Inr)
  from update_data_Inr[OF this] obtain site live agg where
    site: "fetch_site c [''day'', ''week'', ''month''] [] = Inr site" and
    live: "fetch_live c = Inr live" and
    agg: "fetch_aggregate c = Inr agg" and
    data: "data = [(''site'', JDict site), (''live'', live), (''aggregate'', agg)]"
    by blast
  from fetch_aggregate_is_mapping[OF agg] obtain aggregate where
    a: "agg = JDict aggregate" by blast
  have 1: "\<forall>period\<in>set [''day'', ''week'', ''month''].
           \<exists>metrics. dict_get site period = Some (JDict metrics)"
    using fetch_site_entry[OF site] by blast
  have 2: "(\<exists>err. get_live_counters (api c) (site_id c) 30 = Inl err) \<longrightarrow> live = JDict []"
    using fetch_live_after_failure[OF _ live] by blast
  have 3: "\<not> include_aggregate c \<longrightarrow> aggregate = []"
    using agg a by (auto simp: fetch_aggregate_def simp del: fetch_aggregate_periods.simps)
  have 4: "(\<exists>period\<in>set [''day'', ''week'', ''month''].
            \<exists>err. get_all_sites_summary (api c) period ''today'' = Inl err)
          \<longrightarrow> aggregate = []"
    using fetch_aggregate_after_failure[OF agg] a by blast
  from data a 1 2 3 4 show ?thesis by blast
qed

theorem snapshot_is_fully_formed_witness:
  "async_update_data (example_coordinator
       [(live_key 7, http 503 []),
        (summary_key ''Actions.get'' (PStr ''all'') ''week'', http 200 token_error_text)] True)
     = Inr [(''site'', JDict example_site), (''live'', JDict []), (''aggregate'', JDict [])]
   \<and> isl (get_live_counters (example_api
       [(live_key 7, http 503 []),
        (summary_key ''Actions.get'' (PStr ''all'') ''week'', http 200 token_error_text)]) 7 30)
   \<and> isl (get_all_sites_summary (example_api
       [(live_key 7, http 503 []),
        (summary_key ''Actions.get'' (PStr ''all'') ''week'', http 200 token_error_text)])
       ''week'' ''today'')
   \<and> (\<exists>day week month.
        dict_get example_site ''day'' = Some (JDict day)
      \<and> dict_get example_site ''week'' = Some (JDict week)
      \<and> dict_get example_site ''month'' = Some (JDict month))"
proof -
  let ?c = "example_coordinator
       [(live_key 7, http 503 []),
        (summary_key ''Actions.get'' (PStr ''all'') ''week'', http 200 token_error_text)] True"
  have run: "async_update_data ?c
     = Inr [(''site'', JDict example_site), (''live'', JDict []), (''aggregate'', JDict [])]"
    by code_simp
  have live: "isl (get_live_counters (api ?c) (site_id ?c) 30)" by code_simp
  have agg: "isl (get_all_sites_summary (api ?c) ''week'' ''today'')" by code_simp
  have sel: "api ?c = example_api
       [(live_key 7, http 503 []),
        (summary_key ''Actions.get'' (PStr ''all'') ''week'', http 200 token_error_text)]"
    "site_id ?c = 7"
    by (simp_all add: example_coordinator_def)
  from snapshot_is_fully_formed[OF run] obtain site where
    "\<forall>period\<in>set [''day'', ''week'', ''month''].
           \<exists>metrics. dict_get site period = Some (JDict metrics)"
    "site = example_site"
    by auto
  then have "\<exists>day week month.
        dict_get example_site ''day'' = Some (JDict day)
      \<and> dict_get example_site ''week'' = Some (JDict week)
      \<and> dict_get example_site ''month'' = Some (JDict month)"
    by simp
  with run live agg sel show ?thesis by simp
qed

section \<open>The value functions\<close>








end
